theory Spec2Isabelle
  imports Main "HOL-Library.AList"
begin

section \<open>Values arriving on the wire\<close>

text \<open>
  The handlers of \<^verbatim>\<open>src/index.ts\<close> receive whatever the peer sent, and test it with
  \<^verbatim>\<open>typeof\<close> and with truthiness. The values are the JSON values plus \<^verbatim>\<open>undefined\<close>
  (an argument the peer left out). Numbers are only compared with \<^verbatim>\<open>===\<close> and with
  \<^verbatim>\<open>Math.pow(2, 32) - 1\<close>; they are integers here (the player and client ids of the game).
\<close>

datatype jsval =
    JUndefined
  | JNull
  | JBool bool
  | JNum int
  | JStr string
  | JArr "jsval list"
  | JObj "(string \<times> jsval) list"

datatype jstype = TUndefined | TObject | TBoolean | TNumber | TString

fun typeof :: "jsval \<Rightarrow> jstype" where
  "typeof JUndefined = TUndefined"
| "typeof JNull = TObject"
| "typeof (JBool b) = TBoolean"
| "typeof (JNum n) = TNumber"
| "typeof (JStr s) = TString"
| "typeof (JArr xs) = TObject"
| "typeof (JObj kvs) = TObject"

fun truthy :: "jsval \<Rightarrow> bool" where
  "truthy JUndefined = False"
| "truthy JNull = False"
| "truthy (JBool b) = b"
| "truthy (JNum n) = (n \<noteq> 0)"
| "truthy (JStr s) = (s \<noteq> [])"
| "truthy (JArr xs) = True"
| "truthy (JObj kvs) = True"

text \<open>
  Reading a property: \<^verbatim>\<open>v.k\<close>. On \<^verbatim>\<open>null\<close> and \<^verbatim>\<open>undefined\<close> it throws a TypeError
  (the result \<open>None\<close>); on an object it is the field, or \<^verbatim>\<open>undefined\<close>; the other values
  have none of the properties the handlers read (\<^verbatim>\<open>data\<close>, \<^verbatim>\<open>to\<close>, \<^verbatim>\<open>lobbyCode\<close>).
\<close>

fun get_prop :: "jsval \<Rightarrow> string \<Rightarrow> jsval option" where
  "get_prop JUndefined k = None"
| "get_prop JNull k = None"
| "get_prop (JObj kvs) k = Some (case map_of kvs k of None \<Rightarrow> JUndefined | Some v \<Rightarrow> v)"
| "get_prop v k = Some JUndefined"

datatype exn = SyntaxError | TypeError

section \<open>The state of the server\<close>

text \<open>\<^verbatim>\<open>interface Client { playerId: number; clientId: number }\<close>, where the stored
  \<^verbatim>\<open>clientId\<close> is \<^verbatim>\<open>null\<close> after the sentinel was sent.\<close>

record Client =
  playerId :: int
  clientId :: "int option"

text \<open>\<^verbatim>\<open>clientId === Math.pow(2, 32) - 1 ? null : clientId\<close>\<close>

definition sentinel :: int where
  "sentinel = 2 ^ 32 - 1"

definition normalizeClientId :: "int \<Rightarrow> int option" where
  "normalizeClientId cid = (if cid = sentinel then None else Some cid)"

text \<open>The events the server emits: \<^verbatim>\<open>join\<close>, \<^verbatim>\<open>setClients\<close>, \<^verbatim>\<open>setClient\<close>
  and \<^verbatim>\<open>signal\<close> (\<^verbatim>\<open>{data, from}\<close>). In \<^verbatim>\<open>setClients\<close> a member without an entry in
  \<^verbatim>\<open>clients\<close> has the value \<^verbatim>\<open>undefined\<close> (\<open>None\<close>).\<close>

datatype emitted =
    EvJoin string Client
  | EvSetClients "(string \<times> Client option) list"
  | EvSetClient string Client
  | EvSignal jsval string

text \<open>
  The two global maps \<^verbatim>\<open>clients\<close> and \<^verbatim>\<open>states\<close>, the counter, and what the handlers
  use of socket.io: the rooms of the adapter (\<^verbatim>\<open>io.sockets.adapter.rooms[c].sockets\<close>, the
  members in the order they joined; no room is the empty list), which sockets are
  connected, the variable \<^verbatim>\<open>code\<close> of each connection's closure, and the packets sent so
  far, each with the socket it goes to.
\<close>

record server =
  clients :: "string \<rightharpoonup> Client"
  states :: "jsval \<rightharpoonup> jsval"
  connectionCount :: int
  rooms :: "string \<Rightarrow> string list"
  connected :: "string \<Rightarrow> bool"
  code :: "string \<Rightarrow> string option"
  outbox :: "(string \<times> emitted) list"

definition server_init :: server where
  "server_init = \<lparr> clients = Map.empty, states = Map.empty, connectionCount = 0,
     rooms = (\<lambda>_. []), connected = (\<lambda>_. False), code = (\<lambda>_. None), outbox = [] \<rparr>"

text \<open>What a handler returns: it ran to its end, or it threw, with the state at the throw.\<close>

datatype result = Done server | Thrown exn server

section \<open>socket.io: rooms and emitting\<close>

text \<open>\<^verbatim>\<open>socket.join(room)\<close>, \<^verbatim>\<open>socket.leave(room)\<close> and leaving every room on disconnect.\<close>

definition adapter_add :: "string \<Rightarrow> string \<Rightarrow> (string \<Rightarrow> string list) \<Rightarrow> (string \<Rightarrow> string list)" where
  "adapter_add sid room rs = (if sid \<in> set (rs room) then rs else rs(room := rs room @ [sid]))"

definition adapter_del :: "string \<Rightarrow> string \<Rightarrow> (string \<Rightarrow> string list) \<Rightarrow> (string \<Rightarrow> string list)" where
  "adapter_del sid room rs = rs(room := removeAll sid (rs room))"

definition adapter_delAll :: "string \<Rightarrow> (string \<Rightarrow> string list) \<Rightarrow> (string \<Rightarrow> string list)" where
  "adapter_delAll sid rs = (\<lambda>room. removeAll sid (rs room))"

definition emit_to :: "string list \<Rightarrow> emitted \<Rightarrow> server \<Rightarrow> server" where
  "emit_to rcpts m s = s\<lparr>outbox := outbox s @ map (\<lambda>r. (r, m)) rcpts\<rparr>"

text \<open>\<^verbatim>\<open>socket.emit(...)\<close>: to the socket itself.\<close>

definition socket_emit :: "string \<Rightarrow> emitted \<Rightarrow> server \<Rightarrow> server" where
  "socket_emit sid m s = emit_to [sid] m s"

text \<open>\<^verbatim>\<open>socket.to(room).broadcast.emit(...)\<close>: to every member of the room but the sender.
  The room is a property name of the adapter's table, so the \<^verbatim>\<open>null\<close> of a connection
  that never joined reads the property \<^verbatim>\<open>"null"\<close>.\<close>

definition room_key :: "string option \<Rightarrow> string" where
  "room_key c = (case c of None \<Rightarrow> ''null'' | Some r \<Rightarrow> r)"

definition broadcast_emit :: "string \<Rightarrow> string \<Rightarrow> emitted \<Rightarrow> server \<Rightarrow> server" where
  "broadcast_emit sid room m s = emit_to (filter (\<lambda>r. r \<noteq> sid) (rooms s room)) m s"

text \<open>\<^verbatim>\<open>io.to(room).emit(...)\<close>: to every member of the room.\<close>

definition io_to_emit :: "string \<Rightarrow> emitted \<Rightarrow> server \<Rightarrow> server" where
  "io_to_emit room m s = emit_to (rooms s room) m s"

text \<open>The packets a socket was sent, oldest first.\<close>

definition received :: "string \<Rightarrow> server \<Rightarrow> emitted list" where
  "received sid s = map snd (filter (\<lambda>p. fst p = sid) (outbox s))"

section \<open>Connecting and disconnecting\<close>

text \<open>\<^verbatim>\<open>io.on('connection', ...)\<close>: socket.io has put the socket into the room of its own
  id; the handler counts it and starts with \<^verbatim>\<open>code = null\<close>.\<close>

definition on_connection :: "string \<Rightarrow> server \<Rightarrow> server" where
  "on_connection sid s =
     s\<lparr> rooms := adapter_add sid sid (rooms s),
        connected := (connected s)(sid := True),
        connectionCount := connectionCount s + 1,
        code := (code s)(sid := None) \<rparr>"

text \<open>\<^verbatim>\<open>socket.on('disconnect', ...)\<close>\<close>

definition on_disconnect :: "string \<Rightarrow> server \<Rightarrow> server" where
  "on_disconnect sid s =
     s\<lparr> clients := (clients s)(sid := None), connectionCount := connectionCount s - 1 \<rparr>"

text \<open>\<^verbatim>\<open>socket.disconnect()\<close>, and the peer closing the connection: the socket leaves all
  its rooms, is no longer connected, and its \<^verbatim>\<open>disconnect\<close> handler runs at once.\<close>

definition socket_disconnect :: "string \<Rightarrow> server \<Rightarrow> server" where
  "socket_disconnect sid s =
     (if connected s sid
      then on_disconnect sid
             (s\<lparr> rooms := adapter_delAll sid (rooms s), connected := (connected s)(sid := False) \<rparr>)
      else s)"

section \<open>The handlers\<close>

text \<open>The loop of \<^verbatim>\<open>join\<close> over \<^verbatim>\<open>socketsInLobby\<close>: \<open>None\<close> when a member's stored
  \<^verbatim>\<open>clientId\<close> is the one asserted (the handler disconnects and returns), otherwise
  \<^verbatim>\<open>otherClients\<close>.\<close>

fun scan_lobby ::
  "(string \<rightharpoonup> Client) \<Rightarrow> string \<Rightarrow> int \<Rightarrow> string list \<Rightarrow> (string \<times> Client option) list
     \<Rightarrow> (string \<times> Client option) list option" where
  "scan_lobby cl sid cid [] otherClients = Some otherClients"
| "scan_lobby cl sid cid (s # ss) otherClients =
     (if (case cl s of None \<Rightarrow> False | Some c \<Rightarrow> clientId c = Some cid) then None
      else scan_lobby cl sid cid ss
             (if s \<noteq> sid then AList.update s (cl s) otherClients else otherClients))"

definition join_body :: "string \<Rightarrow> string \<Rightarrow> int \<Rightarrow> int \<Rightarrow> server \<Rightarrow> server" where
  "join_body sid c pid cid s =
     (case scan_lobby (clients s) sid cid (rooms s c) [] of
        None \<Rightarrow> socket_disconnect sid s
      | Some otherClients \<Rightarrow>
          socket_emit sid (EvSetClients otherClients)
            (broadcast_emit sid c (EvJoin sid \<lparr>playerId = pid, clientId = normalizeClientId cid\<rparr>)
              (s\<lparr> code := (code s)(sid \<mapsto> c), rooms := adapter_add sid c (rooms s) \<rparr>)))"

text \<open>\<^verbatim>\<open>socket.on('join', (c, id, clientId) => ...)\<close>: anything but a string and two
  numbers disconnects.\<close>

definition on_join :: "string \<Rightarrow> jsval \<Rightarrow> jsval \<Rightarrow> jsval \<Rightarrow> server \<Rightarrow> server" where
  "on_join sid c pid cid s =
     (case c of
        JStr cs \<Rightarrow>
          (case pid of
             JNum i \<Rightarrow>
               (case cid of
                  JNum k \<Rightarrow> join_body sid cs i k s
                | _ \<Rightarrow> socket_disconnect sid s)
           | _ \<Rightarrow> socket_disconnect sid s)
      | _ \<Rightarrow> socket_disconnect sid s)"

text \<open>\<^verbatim>\<open>client != null && client.clientId != null && client.clientId !== clientId\<close>\<close>

definition id_mismatch :: "Client option \<Rightarrow> int \<Rightarrow> bool" where
  "id_mismatch client cid =
     (case client of
        None \<Rightarrow> False
      | Some c \<Rightarrow> (case clientId c of None \<Rightarrow> False | Some k \<Rightarrow> k \<noteq> cid))"

definition id_body :: "string \<Rightarrow> int \<Rightarrow> int \<Rightarrow> server \<Rightarrow> server" where
  "id_body sid pid cid s =
     (if id_mismatch (clients s sid) cid then socket_disconnect sid s
      else
        let client = \<lparr>playerId = pid, clientId = normalizeClientId cid\<rparr>
        in broadcast_emit sid (room_key (code s sid)) (EvSetClient sid client)
             (s\<lparr> clients := (clients s)(sid \<mapsto> client) \<rparr>))"

text \<open>\<^verbatim>\<open>socket.on('id', (id, clientId) => ...)\<close>\<close>

definition on_id :: "string \<Rightarrow> jsval \<Rightarrow> jsval \<Rightarrow> server \<Rightarrow> server" where
  "on_id sid pid cid s =
     (case pid of
        JNum i \<Rightarrow>
          (case cid of
             JNum k \<Rightarrow> id_body sid i k s
           | _ \<Rightarrow> socket_disconnect sid s)
      | _ \<Rightarrow> socket_disconnect sid s)"

text \<open>\<^verbatim>\<open>socket.on('pushstate', (id, state) => ...)\<close>. \<^verbatim>\<open>JSON.parse\<close> is the parameter
  \<open>parse\<close>, \<open>None\<close> where it throws; reading \<^verbatim>\<open>lobbyCode\<close> of a parsed \<^verbatim>\<open>null\<close> throws
  too. Nothing catches either.\<close>

definition on_pushstate :: "(string \<Rightarrow> jsval option) \<Rightarrow> string \<Rightarrow> jsval \<Rightarrow> string \<Rightarrow> server \<Rightarrow> result" where
  "on_pushstate parse sid pid state s =
     (case parse state of
        None \<Rightarrow> Thrown SyntaxError s
      | Some gameState \<Rightarrow>
          (case get_prop gameState ''lobbyCode'' of
             None \<Rightarrow> Thrown TypeError s
           | Some lobbyCode \<Rightarrow> Done (s\<lparr> states := (states s)(lobbyCode \<mapsto> gameState) \<rparr>)))"

text \<open>\<^verbatim>\<open>socket.on('leave', ...)\<close>: \<^verbatim>\<open>if (code)\<close> is false for \<^verbatim>\<open>null\<close> and for the empty
  string.\<close>

definition on_leave :: "string \<Rightarrow> server \<Rightarrow> server" where
  "on_leave sid s =
     (case code s sid of
        None \<Rightarrow> s
      | Some c \<Rightarrow>
          if c \<noteq> []
          then s\<lparr> rooms := adapter_del sid c (rooms s), clients := (clients s)(sid := None) \<rparr>
          else s)"

text \<open>\<^verbatim>\<open>socket.on('signal', (signal) => ...)\<close>. The test is evaluated left to right:
  \<^verbatim>\<open>typeof null\<close> is \<^verbatim>\<open>'object'\<close>, so on \<^verbatim>\<open>null\<close> reading \<^verbatim>\<open>signal.data\<close> throws.\<close>

definition on_signal :: "string \<Rightarrow> jsval \<Rightarrow> server \<Rightarrow> result" where
  "on_signal sid signal s =
     (if typeof signal \<noteq> TObject then Done (socket_disconnect sid s)
      else
        case get_prop signal ''data'' of
          None \<Rightarrow> Thrown TypeError s
        | Some data \<Rightarrow>
            if \<not> truthy data then Done (socket_disconnect sid s)
            else
              (case get_prop signal ''to'' of
                 None \<Rightarrow> Thrown TypeError s
               | Some to \<Rightarrow>
                   if \<not> truthy to \<or> typeof to \<noteq> TString then Done (socket_disconnect sid s)
                   else
                     (case to of
                        JStr room \<Rightarrow> Done (io_to_emit room (EvSignal data sid) s)
                      | _ \<Rightarrow> Done (socket_disconnect sid s))))"

text \<open>\<^verbatim>\<open>app.get('/gameState', ...)\<close>: the query parameter \<^verbatim>\<open>roomCode\<close> (absent, or a
  string) and the \<^verbatim>\<open>gameState\<close> of the answer, \<open>None\<close> for \<^verbatim>\<open>undefined\<close>.\<close>

definition gameState_query :: "string option \<Rightarrow> server \<Rightarrow> jsval option" where
  "gameState_query roomCode s =
     (case roomCode of
        None \<Rightarrow> None
      | Some rc \<Rightarrow> if rc \<noteq> [] then states s (JStr rc) else None)"

section \<open>Runs of the server\<close>

datatype event =
    Connection
  | Join jsval jsval jsval
  | Id jsval jsval
  | PushState jsval string
  | Leave
  | Signal jsval
  | Disconnect

text \<open>One event of one socket. A socket has handlers from its connection to its
  disconnection only.\<close>

fun step :: "(string \<Rightarrow> jsval option) \<Rightarrow> string \<times> event \<Rightarrow> server \<Rightarrow> result" where
  "step parse (sid, Connection) s = (if connected s sid then Done s else Done (on_connection sid s))"
| "step parse (sid, ev) s =
     (if \<not> connected s sid then Done s
      else
        case ev of
          Join c pid cid \<Rightarrow> Done (on_join sid c pid cid s)
        | Id pid cid \<Rightarrow> Done (on_id sid pid cid s)
        | PushState pid state \<Rightarrow> on_pushstate parse sid pid state s
        | Leave \<Rightarrow> Done (on_leave sid s)
        | Signal signal \<Rightarrow> on_signal sid signal s
        | Disconnect \<Rightarrow> Done (socket_disconnect sid s)
        | Connection \<Rightarrow> Done s)"

text \<open>Events one after the other; an exception that nothing catches ends the run.\<close>

fun run :: "(string \<Rightarrow> jsval option) \<Rightarrow> (string \<times> event) list \<Rightarrow> server \<Rightarrow> result" where
  "run parse [] s = Done s"
| "run parse (e # es) s =
     (case step parse e s of
        Done s' \<Rightarrow> run parse es s'
      | Thrown x s' \<Rightarrow> Thrown x s')"

text \<open>The state a run ended in, and the exception that ended it, if one did.\<close>

fun state_of :: "result \<Rightarrow> server" where
  "state_of (Done s) = s"
| "state_of (Thrown x s) = s"

fun thrown :: "result \<Rightarrow> exn option" where
  "thrown (Done s) = None"
| "thrown (Thrown x s) = Some x"

text \<open>Two properties of an event that the statements about runs need: it is a
  \<^verbatim>\<open>pushstate\<close> whose parsed payload has the \<^verbatim>\<open>lobbyCode\<close> \<open>c\<close>; it is a \<^verbatim>\<open>join\<close> with the
  code \<open>c\<close>.\<close>

fun pushes_code :: "(string \<Rightarrow> jsval option) \<Rightarrow> string \<Rightarrow> event \<Rightarrow> bool" where
  "pushes_code parse c (PushState pid state) =
     (case parse state of
        None \<Rightarrow> False
      | Some gameState \<Rightarrow> get_prop gameState ''lobbyCode'' = Some (JStr c))"
| "pushes_code parse c ev = False"

fun joins_code :: "string \<Rightarrow> event \<Rightarrow> bool" where
  "joins_code c (Join c' pid cid) = (c' = JStr c)"
| "joins_code c ev = False"

text \<open>The room named by a socket id holds that socket while it is connected and nobody
  else, and no connection has it as its \<^verbatim>\<open>code\<close>: true as long as nobody joins with the
  id as the code.\<close>

definition own_room :: "string \<Rightarrow> server \<Rightarrow> bool" where
  "own_room X s \<longleftrightarrow>
     rooms s X = (if connected s X then [X] else []) \<and> (\<forall>sid. code s sid \<noteq> Some X)"

section \<open>Basic facts\<close>

lemmas transport_defs =
  adapter_add_def adapter_del_def adapter_delAll_def emit_to_def socket_emit_def
  broadcast_emit_def io_to_emit_def room_key_def received_def
  on_connection_def on_disconnect_def socket_disconnect_def

lemmas handler_defs =
  normalizeClientId_def sentinel_def join_body_def on_join_def id_mismatch_def id_body_def
  on_id_def on_pushstate_def on_leave_def on_signal_def gameState_query_def server_init_def
  Let_def

lemma connected_socket_disconnect: "\<not> connected (socket_disconnect sid s) sid"
  by (simp add: socket_disconnect_def on_disconnect_def)

lemma rooms_socket_disconnect:
  "connected s sid \<Longrightarrow> rooms (socket_disconnect sid s) r = removeAll sid (rooms s r)"
  by (simp add: socket_disconnect_def on_disconnect_def adapter_delAll_def)

lemma clients_socket_disconnect:
  "connected s sid \<Longrightarrow> clients (socket_disconnect sid s) = (clients s)(sid := None)"
  by (simp add: socket_disconnect_def on_disconnect_def)

lemma outbox_socket_disconnect: "outbox (socket_disconnect sid s) = outbox s"
  by (simp add: socket_disconnect_def on_disconnect_def)

lemma states_socket_disconnect: "states (socket_disconnect sid s) = states s"
  by (simp add: socket_disconnect_def on_disconnect_def)

text \<open>The loop of \<^verbatim>\<open>join\<close> stops at a member that holds the asserted \<^verbatim>\<open>clientId\<close>,
  whichever socket is joining.\<close>

lemma scan_lobby_hit:
  "a \<in> set members \<Longrightarrow> cl a = Some ca \<Longrightarrow> clientId ca = Some cid
     \<Longrightarrow> scan_lobby cl sid cid members acc = None"
  by (induction members arbitrary: acc) auto

section \<open>What the handlers leave alone\<close>

subsection \<open>The snapshots\<close>

text \<open>Only \<^verbatim>\<open>pushstate\<close> writes \<^verbatim>\<open>states\<close>, and only at the \<^verbatim>\<open>lobbyCode\<close> of its payload.\<close>

lemma states_join_body: "states (join_body sid c p k s) = states s"
  by (simp add: join_body_def socket_emit_def broadcast_emit_def emit_to_def states_socket_disconnect
      split: option.splits)

lemma states_on_join: "states (on_join sid c p k s) = states s"
  by (simp add: on_join_def states_join_body states_socket_disconnect split: jsval.splits)

lemma states_on_id: "states (on_id sid p k s) = states s"
  by (simp add: on_id_def id_body_def broadcast_emit_def emit_to_def states_socket_disconnect Let_def
      split: jsval.splits)

lemma states_on_leave: "states (on_leave sid s) = states s"
  by (simp add: on_leave_def split: option.splits)

lemma states_on_signal: "states (state_of (on_signal sid sig s)) = states s"
  by (simp add: on_signal_def io_to_emit_def emit_to_def states_socket_disconnect
      split: option.splits jsval.splits)

lemma states_on_connection: "states (on_connection sid s) = states s"
  by (simp add: on_connection_def)

lemma states_on_pushstate:
  "\<not> pushes_code parse rc (PushState pid state)
     \<Longrightarrow> states (state_of (on_pushstate parse sid pid state s)) (JStr rc) = states s (JStr rc)"
  by (auto simp: on_pushstate_def split: option.splits)

lemma states_step:
  assumes "\<not> pushes_code parse rc (snd e)"
  shows "states (state_of (step parse e s)) (JStr rc) = states s (JStr rc)"
proof (cases e)
  case (Pair sid ev)
  with assms show ?thesis
    by (cases ev)
      (simp_all add: states_on_join states_on_id states_on_leave states_on_signal
        states_on_connection states_socket_disconnect states_on_pushstate del: pushes_code.simps)
qed

lemma states_run:
  "list_all (\<lambda>e. \<not> pushes_code parse rc (snd e)) evs
     \<Longrightarrow> states (state_of (run parse evs s)) (JStr rc) = states s (JStr rc)"
proof (induction evs arbitrary: s)
  case Nil
  then show ?case by simp
next
  case (Cons e evs)
  from Cons.prems have e: "\<not> pushes_code parse rc (snd e)"
    and evs: "list_all (\<lambda>e. \<not> pushes_code parse rc (snd e)) evs" by simp_all
  show ?case
  proof (cases "step parse e s")
    case (Done s1)
    with Cons.IH [OF evs, of s1] states_step [OF e, of s] show ?thesis by simp
  next
    case (Thrown x s1)
    with states_step [OF e, of s] show ?thesis by simp
  qed
qed

subsection \<open>The stored identities\<close>

text \<open>An entry of \<^verbatim>\<open>clients\<close> is written by \<^verbatim>\<open>id\<close> only, which stores \<^verbatim>\<open>null\<close> for the
  sentinel: no stored \<^verbatim>\<open>clientId\<close> is the sentinel.\<close>

lemma clients_join_body: "clients (join_body sid c p k s) x = Some cl \<Longrightarrow> clients s x = Some cl"
  by (auto simp: join_body_def socket_emit_def broadcast_emit_def emit_to_def
      socket_disconnect_def on_disconnect_def split: option.splits if_splits)

lemma clients_on_join: "clients (on_join sid c p k s) x = Some cl \<Longrightarrow> clients s x = Some cl"
  by (auto simp: on_join_def socket_disconnect_def on_disconnect_def
      dest: clients_join_body split: jsval.splits if_splits)

lemma clients_on_id:
  "clients (on_id sid p k s) x = Some cl \<Longrightarrow> clients s x = Some cl \<or> clientId cl \<noteq> Some sentinel"
  by (auto simp: on_id_def id_body_def broadcast_emit_def emit_to_def Let_def normalizeClientId_def
      socket_disconnect_def on_disconnect_def split: jsval.splits if_splits)

lemma clients_on_leave: "clients (on_leave sid s) x = Some cl \<Longrightarrow> clients s x = Some cl"
  by (auto simp: on_leave_def split: option.splits if_splits)

lemma clients_on_signal: "clients (state_of (on_signal sid sig s)) x = Some cl \<Longrightarrow> clients s x = Some cl"
  by (auto simp: on_signal_def io_to_emit_def emit_to_def socket_disconnect_def on_disconnect_def
      split: option.splits jsval.splits if_splits)

lemma clients_on_pushstate: "clients (state_of (on_pushstate parse sid pid state s)) = clients s"
  by (simp add: on_pushstate_def split: option.splits)

lemma clients_socket_disconnect_Some:
  "clients (socket_disconnect sid s) x = Some cl \<Longrightarrow> clients s x = Some cl"
  by (auto simp: socket_disconnect_def on_disconnect_def split: if_splits)

lemma clients_step:
  assumes "clients (state_of (step parse e s)) x = Some cl"
  shows "clients s x = Some cl \<or> clientId cl \<noteq> Some sentinel"
proof (cases e)
  case (Pair sid ev)
  with assms show ?thesis
    by (cases ev)
      (auto simp: clients_on_pushstate on_connection_def
        dest: clients_on_join clients_on_id clients_on_leave clients_on_signal
          clients_socket_disconnect_Some split: if_splits)
qed

lemma clients_run:
  assumes "clients (state_of (run parse evs s)) x = Some cl"
  shows "clients s x = Some cl \<or> clientId cl \<noteq> Some sentinel"
  using assms
proof (induction evs arbitrary: s)
  case Nil
  then show ?case by simp
next
  case (Cons e evs)
  show ?case
  proof (cases "step parse e s")
    case (Done s1)
    with Cons.prems have "clients (state_of (run parse evs s1)) x = Some cl" by simp
    from Cons.IH [OF this] clients_step [of parse e s x cl] Done show ?thesis by auto
  next
    case (Thrown ex s1)
    with Cons.prems clients_step [of parse e s x cl] show ?thesis by auto
  qed
qed

lemma stored_clientId_not_sentinel:
  assumes "run parse evs server_init = Done s" and "clients s x = Some cl"
  shows "clientId cl \<noteq> Some sentinel"
  using clients_run [of parse evs server_init x cl] assms by (simp add: server_init_def)

subsection \<open>The room of a socket's own id\<close>

lemma own_room_socket_disconnect: "own_room X s \<Longrightarrow> own_room X (socket_disconnect sid s)"
  by (auto simp: own_room_def socket_disconnect_def on_disconnect_def adapter_delAll_def)

lemma own_room_join_body: "own_room X s \<Longrightarrow> c \<noteq> X \<Longrightarrow> own_room X (join_body sid c p k s)"
  by (auto simp: join_body_def own_room_socket_disconnect split: option.splits)
     (auto simp: own_room_def socket_emit_def broadcast_emit_def emit_to_def adapter_add_def)

lemma own_room_on_join:
  "own_room X s \<Longrightarrow> \<not> joins_code X (Join c p k) \<Longrightarrow> own_room X (on_join sid c p k s)"
  by (auto simp: on_join_def own_room_socket_disconnect split: jsval.splits
      intro!: own_room_join_body)

lemma own_room_on_id: "own_room X s \<Longrightarrow> own_room X (on_id sid p k s)"
  by (auto simp: on_id_def id_body_def own_room_socket_disconnect Let_def split: jsval.splits)
     (auto simp: own_room_def broadcast_emit_def emit_to_def)

lemma own_room_on_leave: "own_room X s \<Longrightarrow> own_room X (on_leave sid s)"
  by (auto simp: on_leave_def own_room_def adapter_del_def split: option.splits)

lemma own_room_on_signal: "own_room X s \<Longrightarrow> own_room X (state_of (on_signal sid sig s))"
  by (auto simp: on_signal_def own_room_socket_disconnect split: option.splits jsval.splits)
     (auto simp: own_room_def io_to_emit_def emit_to_def)

lemma own_room_on_pushstate: "own_room X s \<Longrightarrow> own_room X (state_of (on_pushstate parse sid pid state s))"
  by (auto simp: on_pushstate_def own_room_def split: option.splits)

lemma own_room_on_connection: "own_room X s \<Longrightarrow> \<not> connected s sid \<Longrightarrow> own_room X (on_connection sid s)"
  by (auto simp: own_room_def on_connection_def adapter_add_def)

lemma own_room_step:
  assumes "own_room X s" and "\<not> joins_code X (snd e)"
  shows "own_room X (state_of (step parse e s))"
proof (cases e)
  case (Pair sid ev)
  with assms show ?thesis
    by (cases ev)
      (simp_all add: own_room_on_join own_room_on_id own_room_on_leave own_room_on_signal
        own_room_on_pushstate own_room_on_connection own_room_socket_disconnect
        del: joins_code.simps)
qed

lemma own_room_run:
  assumes "own_room X s" and "list_all (\<lambda>e. \<not> joins_code X (snd e)) evs"
  shows "own_room X (state_of (run parse evs s))"
  using assms
proof (induction evs arbitrary: s)
  case Nil
  then show ?case by simp
next
  case (Cons e evs)
  from Cons.prems have 1: "own_room X (state_of (step parse e s))"
    by (simp add: own_room_step)
  from Cons.prems have 2: "list_all (\<lambda>e. \<not> joins_code X (snd e)) evs" by simp
  show ?case
  proof (cases "step parse e s")
    case (Done s1)
    with Cons.IH [of s1] 1 2 show ?thesis by simp
  next
    case (Thrown ex s1)
    with 1 show ?thesis by simp
  qed
qed

lemma own_room_reachable:
  assumes "run parse evs server_init = Done s" and "list_all (\<lambda>e. \<not> joins_code X (snd e)) evs"
  shows "rooms s X = (if connected s X then [X] else [])"
proof -
  have "own_room X server_init" by (simp add: own_room_def server_init_def)
  from own_room_run [OF this assms(2), of parse] assms(1) show ?thesis
    by (simp add: own_room_def)
qed

section \<open>The scenario of two joins\<close>

text \<open>
  C1, as stated, fails: \<^verbatim>\<open>join\<close> never writes \<^verbatim>\<open>clients\<close>, so after the two joins alone
  the \<^verbatim>\<open>setClients\<close> that S2 receives has S1 with the value \<^verbatim>\<open>undefined\<close>, not with
  \<^verbatim>\<open>{playerId: 0, clientId: 5}\<close>.
\<close>

theorem two_joins_setClients_counterexample:
  "received ''S2'' (state_of (run Map.empty
      [(''S1'', Connection), (''S2'', Connection),
       (''S1'', Join (JStr ''LOBBY1'') (JNum 0) (JNum 5)),
       (''S2'', Join (JStr ''LOBBY1'') (JNum 1) (JNum 6))] server_init))
     = [EvSetClients [(''S1'', None)]]"
  by (simp add: transport_defs handler_defs)

text \<open>
  C1, amended: S1 joins \<^verbatim>\<open>"LOBBY1"\<close> with (0, 5) and identifies with (0, 5), then S2
  joins \<^verbatim>\<open>"LOBBY1"\<close> with (1, 6). S2 receives exactly
  \<^verbatim>\<open>setClients = {S1: {playerId: 0, clientId: 5}}\<close>, which does not list S2 itself, and S1
  receives the broadcast \<^verbatim>\<open>join\<close> event (S2, \<^verbatim>\<open>{playerId: 1, clientId: 6}\<close>), after the
  empty \<^verbatim>\<open>setClients\<close> of its own join. No handler throws.
\<close>

theorem join_identify_join_scenario:
  "received ''S2'' (state_of (run parse
      [(''S1'', Connection), (''S2'', Connection),
       (''S1'', Join (JStr ''LOBBY1'') (JNum 0) (JNum 5)),
       (''S1'', Id (JNum 0) (JNum 5)),
       (''S2'', Join (JStr ''LOBBY1'') (JNum 1) (JNum 6))] server_init))
     = [EvSetClients [(''S1'', Some \<lparr>playerId = 0, clientId = Some 5\<rparr>)]]
   \<and> received ''S1'' (state_of (run parse
      [(''S1'', Connection), (''S2'', Connection),
       (''S1'', Join (JStr ''LOBBY1'') (JNum 0) (JNum 5)),
       (''S1'', Id (JNum 0) (JNum 5)),
       (''S2'', Join (JStr ''LOBBY1'') (JNum 1) (JNum 6))] server_init))
     = [EvSetClients [], EvJoin ''S2'' \<lparr>playerId = 1, clientId = Some 6\<rparr>]
   \<and> thrown (run parse
      [(''S1'', Connection), (''S2'', Connection),
       (''S1'', Join (JStr ''LOBBY1'') (JNum 0) (JNum 5)),
       (''S1'', Id (JNum 0) (JNum 5)),
       (''S2'', Join (JStr ''LOBBY1'') (JNum 1) (JNum 6))] server_init) = None"
  by (simp add: transport_defs handler_defs)

section \<open>One client id per lobby\<close>

text \<open>
  C2: within a lobby at most one session holds a given non-null \<^verbatim>\<open>clientId\<close>. The scan of
  \<^verbatim>\<open>join\<close> looks for the asserted \<^verbatim>\<open>clientId\<close> among the members, but \<^verbatim>\<open>id\<close> only
  compares with the socket's own earlier value. Two members of \<^verbatim>\<open>"LOBBY1"\<close> that
  joined with 5 and 6 and then both identify with 5 are both stored with \<^verbatim>\<open>clientId\<close> 5,
  both still connected and both still members. The same state is reached when S2
  identifies with 5 first and then joins asserting 6.
\<close>

theorem identify_shares_clientId_in_lobby:
  "rooms (state_of (run parse
      [(''S1'', Connection), (''S2'', Connection),
       (''S1'', Join (JStr ''LOBBY1'') (JNum 0) (JNum 5)),
       (''S2'', Join (JStr ''LOBBY1'') (JNum 1) (JNum 6)),
       (''S1'', Id (JNum 0) (JNum 5)),
       (''S2'', Id (JNum 1) (JNum 5))] server_init)) ''LOBBY1'' = [''S1'', ''S2'']
   \<and> clients (state_of (run parse
      [(''S1'', Connection), (''S2'', Connection),
       (''S1'', Join (JStr ''LOBBY1'') (JNum 0) (JNum 5)),
       (''S2'', Join (JStr ''LOBBY1'') (JNum 1) (JNum 6)),
       (''S1'', Id (JNum 0) (JNum 5)),
       (''S2'', Id (JNum 1) (JNum 5))] server_init)) ''S1''
     = Some \<lparr>playerId = 0, clientId = Some 5\<rparr>
   \<and> clients (state_of (run parse
      [(''S1'', Connection), (''S2'', Connection),
       (''S1'', Join (JStr ''LOBBY1'') (JNum 0) (JNum 5)),
       (''S2'', Join (JStr ''LOBBY1'') (JNum 1) (JNum 6)),
       (''S1'', Id (JNum 0) (JNum 5)),
       (''S2'', Id (JNum 1) (JNum 5))] server_init)) ''S2''
     = Some \<lparr>playerId = 1, clientId = Some 5\<rparr>
   \<and> connected (state_of (run parse
      [(''S1'', Connection), (''S2'', Connection),
       (''S1'', Join (JStr ''LOBBY1'') (JNum 0) (JNum 5)),
       (''S2'', Join (JStr ''LOBBY1'') (JNum 1) (JNum 6)),
       (''S1'', Id (JNum 0) (JNum 5)),
       (''S2'', Id (JNum 1) (JNum 5))] server_init)) ''S1''
   \<and> connected (state_of (run parse
      [(''S1'', Connection), (''S2'', Connection),
       (''S1'', Join (JStr ''LOBBY1'') (JNum 0) (JNum 5)),
       (''S2'', Join (JStr ''LOBBY1'') (JNum 1) (JNum 6)),
       (''S1'', Id (JNum 0) (JNum 5)),
       (''S2'', Id (JNum 1) (JNum 5))] server_init)) ''S2''
   \<and> rooms (state_of (run parse
      [(''S1'', Connection), (''S2'', Connection),
       (''S1'', Join (JStr ''LOBBY1'') (JNum 0) (JNum 5)),
       (''S1'', Id (JNum 0) (JNum 5)),
       (''S2'', Id (JNum 1) (JNum 5)),
       (''S2'', Join (JStr ''LOBBY1'') (JNum 1) (JNum 6))] server_init)) ''LOBBY1'' = [''S1'', ''S2'']
   \<and> clients (state_of (run parse
      [(''S1'', Connection), (''S2'', Connection),
       (''S1'', Join (JStr ''LOBBY1'') (JNum 0) (JNum 5)),
       (''S1'', Id (JNum 0) (JNum 5)),
       (''S2'', Id (JNum 1) (JNum 5)),
       (''S2'', Join (JStr ''LOBBY1'') (JNum 1) (JNum 6))] server_init)) ''S1''
     = Some \<lparr>playerId = 0, clientId = Some 5\<rparr>
   \<and> clients (state_of (run parse
      [(''S1'', Connection), (''S2'', Connection),
       (''S1'', Join (JStr ''LOBBY1'') (JNum 0) (JNum 5)),
       (''S1'', Id (JNum 0) (JNum 5)),
       (''S2'', Id (JNum 1) (JNum 5)),
       (''S2'', Join (JStr ''LOBBY1'') (JNum 1) (JNum 6))] server_init)) ''S2''
     = Some \<lparr>playerId = 1, clientId = Some 5\<rparr>"
  by (simp add: transport_defs handler_defs)

section \<open>Joining with a client id that a member holds\<close>

text \<open>
  C3, as stated, fails: \<^verbatim>\<open>join\<close> compares the asserted \<^verbatim>\<open>clientId\<close> with the stored
  identities only, and a member that joined but did not identify has none. S1 and S2 both
  join \<^verbatim>\<open>"LOBBY1"\<close> asserting 5: S2 is admitted and stays connected.
\<close>

theorem unbound_clientId_join_counterexample:
  "connected (state_of (run Map.empty
      [(''S1'', Connection), (''S2'', Connection),
       (''S1'', Join (JStr ''LOBBY1'') (JNum 0) (JNum 5)),
       (''S2'', Join (JStr ''LOBBY1'') (JNum 1) (JNum 5))] server_init)) ''S2''
   \<and> rooms (state_of (run Map.empty
      [(''S1'', Connection), (''S2'', Connection),
       (''S1'', Join (JStr ''LOBBY1'') (JNum 0) (JNum 5)),
       (''S2'', Join (JStr ''LOBBY1'') (JNum 1) (JNum 5))] server_init)) ''LOBBY1'' = [''S1'', ''S2'']"
  by (simp add: transport_defs handler_defs)

text \<open>
  C3, amended: when a member \<open>a\<close> of lobby \<open>L\<close> has the stored \<^verbatim>\<open>clientId\<close> \<open>c\<close> (it
  identified with \<open>c\<close>), a join of another connected session \<open>b\<close> for \<open>L\<close> asserting
  \<open>c\<close> is rejected: \<open>b\<close> is disconnected and is in no room, nothing is emitted, and the
  rooms \<open>a\<close> is in, its stored identity and its connection are as before.
\<close>

theorem join_with_bound_clientId_rejected:
  assumes "connected s b" and "a \<noteq> b" and "a \<in> set (rooms s L)"
    and "clients s a = Some ca" and "clientId ca = Some c"
  shows "step parse (b, Join (JStr L) (JNum p) (JNum c)) s = Done (socket_disconnect b s)
    \<and> \<not> connected (socket_disconnect b s) b
    \<and> (\<forall>r. b \<notin> set (rooms (socket_disconnect b s) r))
    \<and> (\<forall>r. (a \<in> set (rooms (socket_disconnect b s) r)) = (a \<in> set (rooms s r)))
    \<and> clients (socket_disconnect b s) a = clients s a
    \<and> connected (socket_disconnect b s) a = connected s a
    \<and> outbox (socket_disconnect b s) = outbox s"
proof -
  have "scan_lobby (clients s) b c (rooms s L) [] = None"
    using assms(3-5) by (rule scan_lobby_hit)
  then have "join_body b L p c s = socket_disconnect b s"
    by (simp add: join_body_def)
  then have "step parse (b, Join (JStr L) (JNum p) (JNum c)) s = Done (socket_disconnect b s)"
    using assms(1) by (simp add: on_join_def)
  moreover have "\<forall>r. b \<notin> set (rooms (socket_disconnect b s) r)"
    using assms(1) by (simp add: rooms_socket_disconnect)
  moreover have "\<forall>r. (a \<in> set (rooms (socket_disconnect b s) r)) = (a \<in> set (rooms s r))"
    using assms(1,2) by (simp add: rooms_socket_disconnect)
  moreover have "clients (socket_disconnect b s) a = clients s a"
    using assms(1,2) by (simp add: clients_socket_disconnect)
  moreover have "connected (socket_disconnect b s) a = connected s a"
    using assms(1,2) by (simp add: socket_disconnect_def on_disconnect_def)
  ultimately show ?thesis
    by (simp add: connected_socket_disconnect outbox_socket_disconnect)
qed

text \<open>C3, amended, in a run: S1 joins and identifies with 5, then S2 joins asserting 5.\<close>

theorem join_with_bound_clientId_rejected_witness:
  "\<not> connected (state_of (run Map.empty
      [(''S1'', Connection), (''S2'', Connection),
       (''S1'', Join (JStr ''LOBBY1'') (JNum 0) (JNum 5)),
       (''S1'', Id (JNum 0) (JNum 5)),
       (''S2'', Join (JStr ''LOBBY1'') (JNum 1) (JNum 5))] server_init)) ''S2''
   \<and> rooms (state_of (run Map.empty
      [(''S1'', Connection), (''S2'', Connection),
       (''S1'', Join (JStr ''LOBBY1'') (JNum 0) (JNum 5)),
       (''S1'', Id (JNum 0) (JNum 5)),
       (''S2'', Join (JStr ''LOBBY1'') (JNum 1) (JNum 5))] server_init)) ''LOBBY1'' = [''S1'']"
  using join_with_bound_clientId_rejected [of
      "state_of (run Map.empty
        [(''S1'', Connection), (''S2'', Connection),
         (''S1'', Join (JStr ''LOBBY1'') (JNum 0) (JNum 5)),
         (''S1'', Id (JNum 0) (JNum 5))] server_init)"
      "''S2''" "''S1''" "''LOBBY1''" "\<lparr>playerId = 0, clientId = Some 5\<rparr>" 5 Map.empty 1]
  by (simp add: transport_defs handler_defs)

section \<open>Relaying a signal\<close>

text \<open>A well-formed signal \<^verbatim>\<open>{to: X, data: D}\<close> (an object, \<^verbatim>\<open>data\<close> truthy, \<^verbatim>\<open>to\<close> a
  non-empty string) of a connected sender changes nothing but the packets sent:
  \<^verbatim>\<open>io.to(to).emit\<close> sends \<^verbatim>\<open>{data: D, from: sender}\<close> to the members of the room named
  \<open>X\<close>.\<close>

lemma signal_emits_to_room:
  assumes "connected s sid" and "typeof signal = TObject"
    and "get_prop signal ''data'' = Some D" and "truthy D"
    and "get_prop signal ''to'' = Some (JStr X)" and "X \<noteq> []"
  shows "step parse (sid, Signal signal) s
           = Done (s\<lparr>outbox := outbox s @ map (\<lambda>r. (r, EvSignal D sid)) (rooms s X)\<rparr>)"
  using assms by (simp add: on_signal_def io_to_emit_def emit_to_def)

text \<open>In a state reached by a run in which no \<^verbatim>\<open>join\<close> had the code \<open>X\<close>, the room
  named \<open>X\<close> is the socket \<open>X\<close> alone while it is connected: the signal goes to \<open>X\<close> and
  to no other socket, whatever lobbies \<open>X\<close> and the sender are or are not in.\<close>

lemma signal_delivered_to_session:
  assumes "run parse evs server_init = Done s"
    and "list_all (\<lambda>e. \<not> joins_code X (snd e)) evs"
    and "connected s sid" and "typeof signal = TObject"
    and "get_prop signal ''data'' = Some D" and "truthy D"
    and "get_prop signal ''to'' = Some (JStr X)" and "X \<noteq> []"
  shows "step parse (sid, Signal signal) s
           = Done (s\<lparr>outbox := outbox s @ (if connected s X then [(X, EvSignal D sid)] else [])\<rparr>)"
proof -
  have "rooms s X = (if connected s X then [X] else [])"
    using assms(1,2) by (rule own_room_reachable)
  with signal_emits_to_room [OF assms(3-8), of parse] show ?thesis
    by simp
qed

text \<open>
  C4: a well-formed signal \<^verbatim>\<open>{to: X, data: D}\<close> is delivered to session \<open>X\<close> and to no
  other session. The handler sends with \<^verbatim>\<open>io.to(to).emit\<close>, to the room named \<^verbatim>\<open>to\<close>, and
  \<^verbatim>\<open>join\<close> puts a socket into the room named by the code it was given, also when that
  code is another socket's id. S1, S2 and S3 are connected, S2 joins with the code
  \<^verbatim>\<open>"S1"\<close>, and S3 signals \<^verbatim>\<open>{to: "S1", data: "offer"}\<close>: S1 receives
  \<^verbatim>\<open>{data: "offer", from: "S3"}\<close>, and so does S2, which is still connected.
\<close>

theorem signal_reaches_joiner_of_session_id:
  "received ''S1'' (state_of (run parse
      [(''S1'', Connection), (''S2'', Connection), (''S3'', Connection),
       (''S2'', Join (JStr ''S1'') (JNum 1) (JNum 6)),
       (''S3'', Signal (JObj [(''to'', JStr ''S1''), (''data'', JStr ''offer'')]))] server_init))
     = [EvJoin ''S2'' \<lparr>playerId = 1, clientId = Some 6\<rparr>, EvSignal (JStr ''offer'') ''S3'']
   \<and> received ''S2'' (state_of (run parse
      [(''S1'', Connection), (''S2'', Connection), (''S3'', Connection),
       (''S2'', Join (JStr ''S1'') (JNum 1) (JNum 6)),
       (''S3'', Signal (JObj [(''to'', JStr ''S1''), (''data'', JStr ''offer'')]))] server_init))
     = [EvSetClients [(''S1'', None)], EvSignal (JStr ''offer'') ''S3'']
   \<and> rooms (state_of (run parse
      [(''S1'', Connection), (''S2'', Connection), (''S3'', Connection),
       (''S2'', Join (JStr ''S1'') (JNum 1) (JNum 6)),
       (''S3'', Signal (JObj [(''to'', JStr ''S1''), (''data'', JStr ''offer'')]))] server_init)) ''S1''
     = [''S1'', ''S2'']
   \<and> connected (state_of (run parse
      [(''S1'', Connection), (''S2'', Connection), (''S3'', Connection),
       (''S2'', Join (JStr ''S1'') (JNum 1) (JNum 6)),
       (''S3'', Signal (JObj [(''to'', JStr ''S1''), (''data'', JStr ''offer'')]))] server_init)) ''S2''
   \<and> thrown (run parse
      [(''S1'', Connection), (''S2'', Connection), (''S3'', Connection),
       (''S2'', Join (JStr ''S1'') (JNum 1) (JNum 6)),
       (''S3'', Signal (JObj [(''to'', JStr ''S1''), (''data'', JStr ''offer'')]))] server_init) = None"
  by (simp add: transport_defs handler_defs)

section \<open>Identifying again\<close>

text \<open>
  C5, as stated, fails in one point: the rejected \<^verbatim>\<open>id\<close> does not leave the stored
  identity as it was. \<^verbatim>\<open>socket.disconnect()\<close> runs the \<^verbatim>\<open>disconnect\<close> handler, which
  deletes the socket's entry of \<^verbatim>\<open>clients\<close>.
\<close>

theorem reidentify_mismatch_counterexample:
  "clients (state_of (run Map.empty
      [(''S1'', Connection), (''S1'', Id (JNum 0) (JNum 5))] server_init)) ''S1''
     = Some \<lparr>playerId = 0, clientId = Some 5\<rparr>
   \<and> clients (state_of (run Map.empty
      [(''S1'', Connection), (''S1'', Id (JNum 0) (JNum 5)), (''S1'', Id (JNum 0) (JNum 7))]
      server_init)) ''S1'' = None"
  by (simp add: transport_defs handler_defs)

text \<open>
  C5, amended: in a reachable state, for a connected session with the stored \<^verbatim>\<open>clientId\<close>
  \<open>c\<close>, an \<^verbatim>\<open>id\<close> with another \<^verbatim>\<open>clientId\<close> is rejected: the session is disconnected,
  nothing is emitted, the new identity is not stored, and the disconnection deletes the
  stored one. An \<^verbatim>\<open>id\<close> with \<open>c\<close> succeeds: it stores the sent \<^verbatim>\<open>playerId\<close> with \<open>c\<close>
  and broadcasts \<^verbatim>\<open>setClient\<close> to the other members of the session's room; sent again,
  it changes nothing and broadcasts the same \<^verbatim>\<open>setClient\<close> again.
\<close>

theorem reidentify_bound_clientId:
  assumes "run parse evs server_init = Done s" and "connected s sid"
    and "clients s sid = Some cl" and "clientId cl = Some c"
  shows "(k \<noteq> c \<longrightarrow>
            step parse (sid, Id (JNum p) (JNum k)) s = Done (socket_disconnect sid s)
          \<and> \<not> connected (socket_disconnect sid s) sid
          \<and> clients (socket_disconnect sid s) sid = None
          \<and> outbox (socket_disconnect sid s) = outbox s)
    \<and> step parse (sid, Id (JNum p) (JNum c)) s
         = Done (s\<lparr> clients := (clients s)(sid \<mapsto> \<lparr>playerId = p, clientId = Some c\<rparr>),
                    outbox := outbox s @ map (\<lambda>r. (r, EvSetClient sid \<lparr>playerId = p, clientId = Some c\<rparr>))
                                (filter (\<lambda>r. r \<noteq> sid) (rooms s (room_key (code s sid)))) \<rparr>)
    \<and> step parse (sid, Id (JNum p) (JNum c))
         (s\<lparr> clients := (clients s)(sid \<mapsto> \<lparr>playerId = p, clientId = Some c\<rparr>), outbox := ob \<rparr>)
         = Done (s\<lparr> clients := (clients s)(sid \<mapsto> \<lparr>playerId = p, clientId = Some c\<rparr>),
                    outbox := ob @ map (\<lambda>r. (r, EvSetClient sid \<lparr>playerId = p, clientId = Some c\<rparr>))
                                (filter (\<lambda>r. r \<noteq> sid) (rooms s (room_key (code s sid)))) \<rparr>)"
proof -
  have ns: "c \<noteq> sentinel"
    using stored_clientId_not_sentinel [OF assms(1,3)] assms(4) by simp
  have mis: "id_mismatch (clients s sid) k = (k \<noteq> c)" for k
    using assms(3,4) by (auto simp: id_mismatch_def)
  have a: "k \<noteq> c \<longrightarrow> step parse (sid, Id (JNum p) (JNum k)) s = Done (socket_disconnect sid s)"
    using assms(2) by (simp add: on_id_def id_body_def mis)
  have b: "step parse (sid, Id (JNum p) (JNum c)) s
         = Done (s\<lparr> clients := (clients s)(sid \<mapsto> \<lparr>playerId = p, clientId = Some c\<rparr>),
                    outbox := outbox s @ map (\<lambda>r. (r, EvSetClient sid \<lparr>playerId = p, clientId = Some c\<rparr>))
                                (filter (\<lambda>r. r \<noteq> sid) (rooms s (room_key (code s sid)))) \<rparr>)"
    using assms(2) ns
    by (simp add: on_id_def id_body_def mis normalizeClientId_def broadcast_emit_def emit_to_def Let_def)
  have c: "step parse (sid, Id (JNum p) (JNum c))
         (s\<lparr> clients := (clients s)(sid \<mapsto> \<lparr>playerId = p, clientId = Some c\<rparr>), outbox := ob \<rparr>)
         = Done (s\<lparr> clients := (clients s)(sid \<mapsto> \<lparr>playerId = p, clientId = Some c\<rparr>),
                    outbox := ob @ map (\<lambda>r. (r, EvSetClient sid \<lparr>playerId = p, clientId = Some c\<rparr>))
                                (filter (\<lambda>r. r \<noteq> sid) (rooms s (room_key (code s sid)))) \<rparr>)"
    using assms(2) ns
    by (simp add: on_id_def id_body_def id_mismatch_def normalizeClientId_def broadcast_emit_def
        emit_to_def Let_def)
  from a b c assms(2) show ?thesis
    by (simp add: connected_socket_disconnect clients_socket_disconnect outbox_socket_disconnect)
qed

text \<open>C5, amended, in a run: S1 identified with 5, then identifies with 7, or with 5.\<close>

theorem reidentify_bound_clientId_witness:
  "\<not> connected (state_of (run Map.empty
      [(''S1'', Connection), (''S1'', Id (JNum 0) (JNum 5)), (''S1'', Id (JNum 0) (JNum 7))]
      server_init)) ''S1''
   \<and> clients (state_of (run Map.empty
      [(''S1'', Connection), (''S1'', Id (JNum 0) (JNum 5)), (''S1'', Id (JNum 3) (JNum 5))]
      server_init)) ''S1'' = Some \<lparr>playerId = 3, clientId = Some 5\<rparr>"
  using reidentify_bound_clientId [of Map.empty
      "[(''S1'', Connection), (''S1'', Id (JNum 0) (JNum 5))]"
      "state_of (run Map.empty [(''S1'', Connection), (''S1'', Id (JNum 0) (JNum 5))] server_init)"
      "''S1''" "\<lparr>playerId = 0, clientId = Some 5\<rparr>" 5 7 3]
  by (simp add: transport_defs handler_defs)

section \<open>The sentinel client id\<close>

text \<open>
  C6, as stated, fails twice. An \<^verbatim>\<open>id\<close> without a \<^verbatim>\<open>clientId\<close> does not pass
  \<^verbatim>\<open>typeof clientId !== 'number'\<close>: the session is disconnected and nothing is stored,
  while the sentinel stores \<^verbatim>\<open>{playerId, clientId: null}\<close>. And for a session whose stored
  \<^verbatim>\<open>clientId\<close> is 5 the sentinel is a mismatch, and disconnects.
\<close>

theorem identify_sentinel_counterexample:
  "clients (state_of (run Map.empty
      [(''S1'', Connection), (''S1'', Id (JNum 0) (JNum 4294967295))] server_init)) ''S1''
     = Some \<lparr>playerId = 0, clientId = None\<rparr>
   \<and> connected (state_of (run Map.empty
      [(''S1'', Connection), (''S1'', Id (JNum 0) (JNum 4294967295))] server_init)) ''S1''
   \<and> clients (state_of (run Map.empty
      [(''S1'', Connection), (''S1'', Id (JNum 0) JUndefined)] server_init)) ''S1'' = None
   \<and> \<not> connected (state_of (run Map.empty
      [(''S1'', Connection), (''S1'', Id (JNum 0) JUndefined)] server_init)) ''S1''
   \<and> clients (state_of (run Map.empty
      [(''S1'', Connection), (''S1'', Id (JNum 0) (JNum 5)), (''S1'', Id (JNum 0) (JNum 4294967295))]
      server_init)) ''S1'' = None"
  by (simp add: transport_defs handler_defs)

text \<open>
  C6, amended: for a connected session with no stored non-null \<^verbatim>\<open>clientId\<close>, an \<^verbatim>\<open>id\<close>
  with the \<^verbatim>\<open>clientId\<close> \<^verbatim>\<open>Math.pow(2, 32) - 1\<close> stores the identity with \<^verbatim>\<open>clientId\<close> null and
  broadcasts \<^verbatim>\<open>setClient\<close> with that identity to the other members of the session's
  room, and changes nothing else. With a stored non-null \<^verbatim>\<open>clientId\<close> other than the
  sentinel it is rejected, and so is an \<^verbatim>\<open>id\<close> whose \<^verbatim>\<open>clientId\<close> is not a number (left
  out, or null): the session is disconnected, nothing is emitted and no identity is stored.
\<close>

theorem identify_sentinel:
  assumes "connected s sid"
  shows "((\<forall>cl. clients s sid = Some cl \<longrightarrow> clientId cl = None) \<longrightarrow>
            step parse (sid, Id (JNum p) (JNum (2 ^ 32 - 1))) s
              = Done (s\<lparr> clients := (clients s)(sid \<mapsto> \<lparr>playerId = p, clientId = None\<rparr>),
                         outbox := outbox s @ map (\<lambda>r. (r, EvSetClient sid \<lparr>playerId = p, clientId = None\<rparr>))
                                     (filter (\<lambda>r. r \<noteq> sid) (rooms s (room_key (code s sid)))) \<rparr>))
    \<and> (\<forall>cl c. clients s sid = Some cl \<and> clientId cl = Some c \<and> c \<noteq> 2 ^ 32 - 1 \<longrightarrow>
            step parse (sid, Id (JNum p) (JNum (2 ^ 32 - 1))) s = Done (socket_disconnect sid s))
    \<and> (typeof v \<noteq> TNumber \<longrightarrow>
            step parse (sid, Id (JNum p) v) s = Done (socket_disconnect sid s))
    \<and> clients (socket_disconnect sid s) sid = None
    \<and> \<not> connected (socket_disconnect sid s) sid
    \<and> outbox (socket_disconnect sid s) = outbox s"
proof -
  have a: "step parse (sid, Id (JNum p) (JNum (2 ^ 32 - 1))) s
              = Done (s\<lparr> clients := (clients s)(sid \<mapsto> \<lparr>playerId = p, clientId = None\<rparr>),
                         outbox := outbox s @ map (\<lambda>r. (r, EvSetClient sid \<lparr>playerId = p, clientId = None\<rparr>))
                                     (filter (\<lambda>r. r \<noteq> sid) (rooms s (room_key (code s sid)))) \<rparr>)"
    if "\<forall>cl. clients s sid = Some cl \<longrightarrow> clientId cl = None"
  proof -
    from that have "\<not> id_mismatch (clients s sid) (2 ^ 32 - 1)"
      by (auto simp: id_mismatch_def split: option.splits)
    with assms show ?thesis
      by (simp add: on_id_def id_body_def normalizeClientId_def sentinel_def broadcast_emit_def
          emit_to_def Let_def)
  qed
  have b: "step parse (sid, Id (JNum p) (JNum (2 ^ 32 - 1))) s = Done (socket_disconnect sid s)"
    if "clients s sid = Some cl \<and> clientId cl = Some c \<and> c \<noteq> 2 ^ 32 - 1" for cl c
  proof -
    from that have "id_mismatch (clients s sid) (2 ^ 32 - 1)"
      by (auto simp: id_mismatch_def)
    with assms show ?thesis
      by (simp add: on_id_def id_body_def)
  qed
  have c: "step parse (sid, Id (JNum p) v) s = Done (socket_disconnect sid s)"
    if "typeof v \<noteq> TNumber"
    using that assms by (cases v) (simp_all add: on_id_def)
  from a b c assms show ?thesis
    by (auto simp: connected_socket_disconnect clients_socket_disconnect outbox_socket_disconnect)
qed

text \<open>C6, amended, in runs: the sentinel on a fresh session, a missing \<^verbatim>\<open>clientId\<close>, and
  the sentinel after 5.\<close>

theorem identify_sentinel_witness:
  "clients (state_of (run Map.empty
      [(''S1'', Connection), (''S1'', Id (JNum 0) (JNum 4294967295))] server_init)) ''S1''
     = Some \<lparr>playerId = 0, clientId = None\<rparr>
   \<and> \<not> connected (state_of (run Map.empty
      [(''S1'', Connection), (''S1'', Id (JNum 0) JUndefined)] server_init)) ''S1''
   \<and> \<not> connected (state_of (run Map.empty
      [(''S1'', Connection), (''S1'', Id (JNum 0) (JNum 5)), (''S1'', Id (JNum 0) (JNum 4294967295))]
      server_init)) ''S1''"
  using identify_sentinel [of "state_of (run Map.empty [(''S1'', Connection)] server_init)"
      "''S1''" Map.empty 0 JUndefined]
    identify_sentinel [of
      "state_of (run Map.empty [(''S1'', Connection), (''S1'', Id (JNum 0) (JNum 5))] server_init)"
      "''S1''" Map.empty 0 JUndefined]
  by (simp add: transport_defs handler_defs)

section \<open>Snapshots\<close>

text \<open>
  C7, as stated, fails for the empty lobby code: \<^verbatim>\<open>pushstate\<close> stores the snapshot
  \<^verbatim>\<open>{"lobbyCode": ""}\<close> under the empty string, but the query tests
  \<^verbatim>\<open>req.query.roomCode ? ... : undefined\<close>, and the empty string is false.
\<close>

theorem empty_code_query_counterexample:
  "states (state_of (run
      (Map.empty(''{'' @ [CHR 0x22] @ ''lobbyCode'' @ [CHR 0x22] @ '':'' @ [CHR 0x22, CHR 0x22] @ ''}''
         \<mapsto> JObj [(''lobbyCode'', JStr [])]))
      [(''S1'', Connection),
       (''S1'', PushState (JNum 0)
          (''{'' @ [CHR 0x22] @ ''lobbyCode'' @ [CHR 0x22] @ '':'' @ [CHR 0x22, CHR 0x22] @ ''}''))]
      server_init)) (JStr [])
     = Some (JObj [(''lobbyCode'', JStr [])])
   \<and> gameState_query (Some []) (state_of (run
      (Map.empty(''{'' @ [CHR 0x22] @ ''lobbyCode'' @ [CHR 0x22] @ '':'' @ [CHR 0x22, CHR 0x22] @ ''}''
         \<mapsto> JObj [(''lobbyCode'', JStr [])]))
      [(''S1'', Connection),
       (''S1'', PushState (JNum 0)
          (''{'' @ [CHR 0x22] @ ''lobbyCode'' @ [CHR 0x22] @ '':'' @ [CHR 0x22, CHR 0x22] @ ''}''))]
      server_init))
     = None"
  by (simp add: transport_defs handler_defs)

text \<open>
  C7, amended: for every non-empty lobby code \<open>rc\<close>. A \<^verbatim>\<open>pushstate\<close> of a connected
  session whose state parses to \<open>g\<close> with \<^verbatim>\<open>g.lobbyCode\<close> \<open>rc\<close> replaces whatever was
  stored for \<open>rc\<close> by \<open>g\<close>; the query for \<open>rc\<close> then returns exactly \<open>g\<close>, and still does
  after any further events none of which is a \<^verbatim>\<open>pushstate\<close> for \<open>rc\<close>. After a run from
  the start in which no \<^verbatim>\<open>pushstate\<close> was for \<open>rc\<close>, the query returns \<^verbatim>\<open>undefined\<close>.
\<close>

theorem snapshot_query_last_pushed:
  assumes "rc \<noteq> []"
  shows "(connected s sid \<and> parse state = Some g \<and> get_prop g ''lobbyCode'' = Some (JStr rc) \<longrightarrow>
            step parse (sid, PushState pid state) s = Done (s\<lparr>states := (states s)(JStr rc \<mapsto> g)\<rparr>)
          \<and> gameState_query (Some rc) (s\<lparr>states := (states s)(JStr rc \<mapsto> g)\<rparr>) = Some g
          \<and> (\<forall>evs. list_all (\<lambda>e. \<not> pushes_code parse rc (snd e)) evs \<longrightarrow>
                gameState_query (Some rc)
                  (state_of (run parse evs (s\<lparr>states := (states s)(JStr rc \<mapsto> g)\<rparr>))) = Some g))
       \<and> (list_all (\<lambda>e. \<not> pushes_code parse rc (snd e)) evs \<longrightarrow>
            gameState_query (Some rc) (state_of (run parse evs server_init)) = None)"
proof -
  have q: "gameState_query (Some rc) t = states t (JStr rc)" for t
    using assms by (simp add: gameState_query_def)
  have "states (state_of (run parse evs server_init)) (JStr rc) = None"
    if "list_all (\<lambda>e. \<not> pushes_code parse rc (snd e)) evs"
    using states_run [OF that, of server_init] by (simp add: server_init_def)
  moreover have "states (state_of (run parse evs' (s\<lparr>states := (states s)(JStr rc \<mapsto> g)\<rparr>))) (JStr rc) = Some g"
    if "list_all (\<lambda>e. \<not> pushes_code parse rc (snd e)) evs'" for evs'
    using states_run [OF that, of "s\<lparr>states := (states s)(JStr rc \<mapsto> g)\<rparr>"] by simp
  ultimately show ?thesis
    by (simp add: q on_pushstate_def)
qed

text \<open>C7, amended, in runs: a snapshot for \<^verbatim>\<open>"ABCDE"\<close> is pushed and queried after
  another event; no snapshot is pushed.\<close>

theorem snapshot_query_last_pushed_witness:
  "gameState_query (Some ''ABCDE'') (state_of (run
      (Map.empty(''{'' @ [CHR 0x22] @ ''lobbyCode'' @ [CHR 0x22] @ '':'' @ [CHR 0x22] @ ''ABCDE''
           @ [CHR 0x22] @ ''}''
         \<mapsto> JObj [(''lobbyCode'', JStr ''ABCDE'')]))
      [(''S1'', Connection),
       (''S1'', PushState (JNum 0)
          (''{'' @ [CHR 0x22] @ ''lobbyCode'' @ [CHR 0x22] @ '':'' @ [CHR 0x22] @ ''ABCDE''
             @ [CHR 0x22] @ ''}'')),
       (''S1'', Join (JStr ''ABCDE'') (JNum 0) (JNum 5))]
      server_init))
     = Some (JObj [(''lobbyCode'', JStr ''ABCDE'')])
   \<and> gameState_query (Some ''ABCDE'') (state_of (run
      (Map.empty(''{'' @ [CHR 0x22] @ ''lobbyCode'' @ [CHR 0x22] @ '':'' @ [CHR 0x22] @ ''ABCDE''
           @ [CHR 0x22] @ ''}''
         \<mapsto> JObj [(''lobbyCode'', JStr ''ABCDE'')]))
      [(''S1'', Connection), (''S1'', Join (JStr ''ABCDE'') (JNum 0) (JNum 5))]
      server_init))
     = None"
  using snapshot_query_last_pushed [of "''ABCDE''"
      "state_of (run Map.empty [(''S1'', Connection)] server_init)" "''S1''"
      "Map.empty(''{'' @ [CHR 0x22] @ ''lobbyCode'' @ [CHR 0x22] @ '':'' @ [CHR 0x22] @ ''ABCDE''
           @ [CHR 0x22] @ ''}''
         \<mapsto> JObj [(''lobbyCode'', JStr ''ABCDE'')])"
      "''{'' @ [CHR 0x22] @ ''lobbyCode'' @ [CHR 0x22] @ '':'' @ [CHR 0x22] @ ''ABCDE''
           @ [CHR 0x22] @ ''}''"
      "JObj [(''lobbyCode'', JStr ''ABCDE'')]" "JNum 0"
      "[(''S1'', Connection), (''S1'', Join (JStr ''ABCDE'') (JNum 0) (JNum 5))]"]
  by (simp add: transport_defs handler_defs)

section \<open>Joining the same lobby again\<close>

text \<open>
  C8: a session that is a member of lobby \<open>L\<close> and has a stored identity is disconnected
  by a second \<^verbatim>\<open>join\<close> for \<open>L\<close> that asserts its own stored \<^verbatim>\<open>clientId\<close>: the scan tests
  every member, the joining socket too, before it looks at \<^verbatim>\<open>s !== socket.id\<close>. (A stored
  null asserted as null does not pass the type test, and disconnects as well.)
\<close>

theorem rejoin_own_clientId_disconnects:
  assumes "connected s sid" and "sid \<in> set (rooms s L)"
    and "clients s sid = Some cl"
  shows "step parse (sid, Join (JStr L) (JNum p) (case clientId cl of None \<Rightarrow> JNull | Some c \<Rightarrow> JNum c)) s
           = Done (socket_disconnect sid s)
    \<and> \<not> connected (socket_disconnect sid s) sid
    \<and> clients (socket_disconnect sid s) sid = None
    \<and> (\<forall>r. sid \<notin> set (rooms (socket_disconnect sid s) r))"
proof -
  have "step parse (sid, Join (JStr L) (JNum p) (case clientId cl of None \<Rightarrow> JNull | Some c \<Rightarrow> JNum c)) s
           = Done (socket_disconnect sid s)"
  proof (cases "clientId cl")
    case None
    then show ?thesis using assms(1) by (simp add: on_join_def)
  next
    case (Some c)
    have "scan_lobby (clients s) sid c (rooms s L) [] = None"
      using assms(2,3) Some by (rule scan_lobby_hit)
    then show ?thesis using assms(1) Some by (simp add: on_join_def join_body_def)
  qed
  then show ?thesis
    using assms(1)
    by (simp add: connected_socket_disconnect rooms_socket_disconnect clients_socket_disconnect)
qed

text \<open>C8 in a run: S1 joins, identifies with 5 and joins again with 5.\<close>

theorem rejoin_own_clientId_disconnects_witness:
  "\<not> connected (state_of (run Map.empty
      [(''S1'', Connection),
       (''S1'', Join (JStr ''LOBBY1'') (JNum 0) (JNum 5)),
       (''S1'', Id (JNum 0) (JNum 5)),
       (''S1'', Join (JStr ''LOBBY1'') (JNum 0) (JNum 5))] server_init)) ''S1''"
  using rejoin_own_clientId_disconnects [of
      "state_of (run Map.empty
        [(''S1'', Connection),
         (''S1'', Join (JStr ''LOBBY1'') (JNum 0) (JNum 5)),
         (''S1'', Id (JNum 0) (JNum 5))] server_init)"
      "''S1''" "''LOBBY1''" "\<lparr>playerId = 0, clientId = Some 5\<rparr>" Map.empty 0]
  by (simp add: transport_defs handler_defs)

section \<open>Identifying without a lobby\<close>

text \<open>
  C9, as stated, fails for a session that identified before: an \<^verbatim>\<open>id\<close> with another
  \<^verbatim>\<open>clientId\<close> than the stored non-null one disconnects it, in a lobby or not.
\<close>

theorem identify_before_join_counterexample:
  "code (state_of (run Map.empty
      [(''S1'', Connection), (''S1'', Id (JNum 0) (JNum 5))] server_init)) ''S1'' = None
   \<and> connected (state_of (run Map.empty
      [(''S1'', Connection), (''S1'', Id (JNum 0) (JNum 5))] server_init)) ''S1''
   \<and> \<not> connected (state_of (run Map.empty
      [(''S1'', Connection), (''S1'', Id (JNum 0) (JNum 5)), (''S1'', Id (JNum 0) (JNum 7))]
      server_init)) ''S1''
   \<and> clients (state_of (run Map.empty
      [(''S1'', Connection), (''S1'', Id (JNum 0) (JNum 5)), (''S1'', Id (JNum 0) (JNum 7))]
      server_init)) ''S1'' = None"
  by (simp add: transport_defs handler_defs)

text \<open>
  C9, amended: for a connected session that has not joined any lobby (\<^verbatim>\<open>code\<close> is
  \<^verbatim>\<open>null\<close>) and whose stored \<^verbatim>\<open>clientId\<close>, if it has a non-null one, is the one sent, an
  \<^verbatim>\<open>id\<close> with two numbers stores the identity for the session, throws nothing and does
  not disconnect the session; the rooms are as before.
\<close>

theorem identify_before_join:
  assumes "connected s sid" and "code s sid = None"
    and "\<forall>cl c. clients s sid = Some cl \<and> clientId cl = Some c \<longrightarrow> c = k"
  shows "thrown (step parse (sid, Id (JNum p) (JNum k)) s) = None
    \<and> clients (state_of (step parse (sid, Id (JNum p) (JNum k)) s))
         = (clients s)(sid \<mapsto> \<lparr>playerId = p, clientId = normalizeClientId k\<rparr>)
    \<and> connected (state_of (step parse (sid, Id (JNum p) (JNum k)) s)) sid
    \<and> rooms (state_of (step parse (sid, Id (JNum p) (JNum k)) s)) = rooms s"
proof -
  from assms(3) have "\<not> id_mismatch (clients s sid) k"
    by (auto simp: id_mismatch_def split: option.splits)
  with assms(1,2) show ?thesis
    by (simp add: on_id_def id_body_def broadcast_emit_def emit_to_def room_key_def Let_def)
qed

text \<open>C9, amended, in a run: S1 connects and identifies.\<close>

theorem identify_before_join_witness:
  "clients (state_of (run Map.empty [(''S1'', Connection), (''S1'', Id (JNum 0) (JNum 5))]
      server_init)) ''S1'' = Some \<lparr>playerId = 0, clientId = Some 5\<rparr>
   \<and> connected (state_of (run Map.empty [(''S1'', Connection), (''S1'', Id (JNum 0) (JNum 5))]
      server_init)) ''S1''"
  using identify_before_join [of "state_of (run Map.empty [(''S1'', Connection)] server_init)"
      "''S1''" 5 Map.empty 0]
  by (simp add: transport_defs handler_defs)

section \<open>A state that does not parse\<close>

text \<open>
  C10: when \<^verbatim>\<open>JSON.parse\<close> throws on the state string of a \<^verbatim>\<open>pushstate\<close>, the handler
  throws before \<^verbatim>\<open>states.set\<close>: the state of the server at the throw is the state before
  the message, and so is the snapshot map.
\<close>

theorem pushstate_parse_failure_atomic:
  assumes "parse state = None"
  shows "on_pushstate parse sid pid state s = Thrown SyntaxError s
    \<and> state_of (step parse (sid, PushState pid state) s) = s
    \<and> states (state_of (step parse (sid, PushState pid state) s)) = states s
    \<and> (connected s sid \<longrightarrow> step parse (sid, PushState pid state) s = Thrown SyntaxError s)"
  using assms by (simp add: on_pushstate_def)

text \<open>C10 in a run: S1 pushes a state that is not JSON.\<close>

theorem pushstate_parse_failure_atomic_witness:
  "step Map.empty (''S1'', PushState (JNum 0) ''{lobbyCode'')
      (state_of (run Map.empty [(''S1'', Connection)] server_init))
     = Thrown SyntaxError (state_of (run Map.empty [(''S1'', Connection)] server_init))"
  using pushstate_parse_failure_atomic [of Map.empty "''{lobbyCode''"
      "''S1''" "JNum 0" "state_of (run Map.empty [(''S1'', Connection)] server_init)"]
  by (simp add: transport_defs handler_defs)

end
